theory Spec2Isabelle
  imports Complex_Main
begin

section \<open>Buffon's needles: the simulation of \<^verbatim>\<open>Buffon_MC.py\<close>\<close>

text \<open>
  The program drops needles of a fixed length on a field of horizontal lines
  \<open>y = k * LINE_SPACING\<close> and counts how many of them cross a line.

  Numbers. Python's unbounded integers are \<open>int\<close>. A finite \<^verbatim>\<open>float64\<close> is the real
  number it denotes. The classifier's arithmetic is modelled as \<^verbatim>\<open>float64\<close>
  arithmetic: each division, multiplication and addition of its source is one IEEE 754
  operation, the exact result rounded to the nearest \<^verbatim>\<open>float64\<close> (ties to even) or
  to an infinity, as CPython evaluates the same lines. The formulas of the sampler and
  of the estimate are read over the exact reals.
\<close>

subsection \<open>Errors\<close>

text \<open>
  \<open>ZeroDivisionError\<close>: a division by zero (Python, and Numba under its default
  error model). \<open>ValueError\<close>: \<^verbatim>\<open>np.empty\<close> with a negative dimension.
  \<open>OverflowError\<close>: \<^verbatim>\<open>int(x)\<close> on an infinity.
\<close>

datatype py_error = ZeroDivisionError | ValueError | OverflowError

subsection \<open>Module parameters (lines 7--11)\<close>

text \<open>
  The four module-level parameters, marked as modifiable in the source, are the fields
  of a record that every function reading them takes; \<open>module_params\<close> holds the
  values the file ships with.
\<close>

record params =
  NEEDLE_LENGTH :: real
  LINE_SPACING :: real
  N_NEEDLES_PER_FRAME :: int
  MAX_NEEDLES :: int

definition module_params :: params where
  "module_params =
     \<lparr>NEEDLE_LENGTH = 1, LINE_SPACING = 1, N_NEEDLES_PER_FRAME = 10, MAX_NEEDLES = 2000\<rparr>"

subsection \<open>\<^verbatim>\<open>float64\<close> arithmetic\<close>

text \<open>\<open>pow2 e\<close> is \<open>2\<close> to the power \<open>e\<close>, for any integer \<open>e\<close>.\<close>

definition pow2 :: "int \<Rightarrow> real" where
  "pow2 e = (if 0 \<le> e then 2 ^ nat e else 1 / 2 ^ nat (- e))"

text \<open>Rounding to the nearest integer, a tie going to the even one.\<close>

definition rne :: "real \<Rightarrow> int" where
  "rne x =
     (let f = \<lfloor>x\<rfloor>;
          d = x - of_int f
      in if d < 1 / 2 then f
         else if 1 / 2 < d then f + 1
         else if even f then f else f + 1)"

text \<open>
  Rounding a real to 53 significant bits: a number in the binade
  \<open>2\<^sup>E \<le> |x| < 2\<^sup>E\<^sup>+\<^sup>1\<close> is rounded to a multiple of \<open>2\<^sup>E\<^sup>-\<^sup>5\<^sup>2\<close>, and to a multiple of
  \<open>2\<^sup>-\<^sup>1\<^sup>0\<^sup>7\<^sup>4\<close> in the subnormal range.
\<close>

definition round64 :: "real \<Rightarrow> real" where
  "round64 x =
     (if x = 0 then 0
      else let e = max (\<lfloor>log 2 \<bar>x\<bar>\<rfloor> - 52) (- 1074)
           in of_int (rne (x / pow2 e)) * pow2 e)"

text \<open>
  A \<^verbatim>\<open>float64\<close> that is not a NaN: finite, or one of the two infinities. No
  operation of the classifier produces a NaN from finite operands.
\<close>

datatype f64 = Fin real | PInf | MInf

text \<open>
  The result of an operation whose exact value is \<open>x\<close>: its rounding, or an infinity
  when the rounding leaves the \<^verbatim>\<open>float64\<close> range.
\<close>

definition fl :: "real \<Rightarrow> f64" where
  "fl x =
     (let r = round64 x
      in if 2 ^ 1024 \<le> r then PInf
         else if r \<le> - (2 ^ 1024) then MInf
         else Fin r)"

text \<open>The comparison \<^verbatim>\<open><=\<close> and the addition of a finite number.\<close>

fun f64_le :: "f64 \<Rightarrow> f64 \<Rightarrow> bool" where
  "f64_le (Fin a) (Fin b) = (a \<le> b)"
| "f64_le MInf _ = True"
| "f64_le _ PInf = True"
| "f64_le _ _ = False"

fun fadd :: "f64 \<Rightarrow> real \<Rightarrow> f64" where
  "fadd (Fin a) b = fl (a + b)"
| "fadd PInf b = PInf"
| "fadd MInf b = MInf"

text \<open>Python's \<^verbatim>\<open>int(x)\<close> on a finite float truncates towards zero.\<close>

definition py_int :: "real \<Rightarrow> int" where
  "py_int x = (if 0 \<le> x then \<lfloor>x\<rfloor> else \<lceil>x\<rceil>)"

text \<open>
  \<^verbatim>\<open>int(x)\<close> inside the compiled function yields an \<^verbatim>\<open>int64\<close>. Python raises
  \<open>OverflowError\<close> on an infinity; the compiled cast has no defined value there, nor
  for a finite \<open>x\<close> outside the \<^verbatim>\<open>int64\<close> range. Both are the failure
  \<open>OverflowError\<close> here.
\<close>

fun to_int64 :: "f64 \<Rightarrow> py_error + int" where
  "to_int64 (Fin x) =
     (if - (2 ^ 63) \<le> py_int x \<and> py_int x < 2 ^ 63 then Inr (py_int x)
      else Inl OverflowError)"
| "to_int64 _ = Inl OverflowError"

subsection \<open>The intersection classifier (lines 83--109)\<close>

text \<open>
  A row \<open>(x1, y1, x2, y2)\<close> is one line \<^verbatim>\<open>positions[i, 0..3]\<close> of the batch array.
\<close>

type_synonym row = "real \<times> real \<times> real \<times> real"

text \<open>
  The \<^verbatim>\<open>while line_y <= line_above\<close> loop of lines 103--107, with the rounded
  addition \<^verbatim>\<open>line_y += spacing\<close>. The loop need not terminate (a negative spacing
  moves \<open>line_y\<close> away from \<open>line_above\<close>, a spacing too small for \<open>line_y\<close> leaves it
  where it is), so it lives in the option monad: \<open>None\<close> is a loop that never exits.
\<close>

partial_function (option) sweep :: "real \<Rightarrow> real \<Rightarrow> real \<Rightarrow> f64 \<Rightarrow> f64 \<Rightarrow> bool option" where
  "sweep y_min y_max spacing line_above line_y =
     (if f64_le line_y line_above then
        (if f64_le (Fin y_min) line_y \<and> f64_le line_y (Fin y_max) then Some True
         else sweep y_min y_max spacing line_above (fadd line_y spacing))
      else Some False)"

text \<open>
  The body of the \<^verbatim>\<open>prange\<close> loop for one needle (lines 90--107). Line 97 divides,
  casts to an integer, converts it back to a float and multiplies; line 98 does the
  same with the successor of the integer. The divisions raise when the spacing is zero.
  The compiler flag \<^verbatim>\<open>fastmath\<close> allows the compiled code to rearrange these
  operations; the model keeps them as the source writes them.
\<close>

definition check_intersection :: "row \<Rightarrow> real \<Rightarrow> (py_error + bool) option" where
  "check_intersection r spacing =
     (case r of (x1, y1, x2, y2) \<Rightarrow>
        let y_min = min y1 y2;
            y_max = max y1 y2
        in if spacing = 0 then Some (Inl ZeroDivisionError)
           else
             case to_int64 (fl (y_min / spacing)) of
               Inl e \<Rightarrow> Some (Inl e)
             | Inr k_below \<Rightarrow>
                 (case to_int64 (fl (y_max / spacing)) of
                    Inl e \<Rightarrow> Some (Inl e)
                  | Inr k_above \<Rightarrow>
                      let line_below = fl (round64 (of_int k_below) * spacing);
                          line_above = fl (round64 (of_int (k_above + 1)) * spacing)
                      in map_option Inr (sweep y_min y_max spacing line_above line_below)))"

text \<open>
  The whole batch: one flag per row, in the rows' order. The first row that raises or
  loops decides the call's outcome.
\<close>

fun check_intersections_batch :: "row list \<Rightarrow> real \<Rightarrow> (py_error + bool list) option" where
  "check_intersections_batch [] spacing = Some (Inr [])"
| "check_intersections_batch (r # rs) spacing =
     (case check_intersection r spacing of
        None \<Rightarrow> None
      | Some (Inl e) \<Rightarrow> Some (Inl e)
      | Some (Inr b) \<Rightarrow>
          (case check_intersections_batch rs spacing of
             None \<Rightarrow> None
           | Some (Inl e) \<Rightarrow> Some (Inl e)
           | Some (Inr bs) \<Rightarrow> Some (Inr (b # bs))))"



subsection \<open>The needle sampler (lines 61--81)\<close>

text \<open>
  The random source is injected: \<open>rnd i\<close> holds the three unit variates that iteration
  \<open>i\<close> of the \<^verbatim>\<open>prange\<close> loop draws, and \<^verbatim>\<open>np.random.uniform(low, high)\<close>
  scales a unit variate \<open>u\<close> (drawn from \<open>[0, 1)\<close>) to \<open>low + (high - low) * u\<close>.
\<close>

type_synonym draws = "nat \<Rightarrow> real \<times> real \<times> real"

definition uniform :: "real \<Rightarrow> real \<Rightarrow> real \<Rightarrow> real" where
  "uniform low high u = low + (high - low) * u"

text \<open>One iteration of the loop, lines 67--79: the row written to \<^verbatim>\<open>positions[i]\<close>.\<close>

definition needle :: "real \<Rightarrow> real \<Rightarrow> real \<Rightarrow> real \<Rightarrow> real \<Rightarrow> real \<times> real \<times> real \<Rightarrow> row" where
  "needle length' x_min x_max y_min y_max d =
     (case d of (ux, uy, ua) \<Rightarrow>
        let x = uniform x_min x_max ux;
            y = uniform y_min y_max uy;
            angle = uniform 0 (2 * pi) ua;
            x1 = x;
            y1 = y;
            x2 = x + length' * cos angle;
            y2 = y + length' * sin angle
        in (x1, y1, x2, y2))"

text \<open>\<^verbatim>\<open>np.empty((n, 4))\<close> raises for a negative \<open>n\<close>; otherwise the array has \<open>n\<close> rows.\<close>

definition generate_needles_batch ::
  "int \<Rightarrow> real \<Rightarrow> real \<Rightarrow> real \<Rightarrow> real \<Rightarrow> real \<Rightarrow> draws \<Rightarrow> py_error + row list" where
  "generate_needles_batch n length' x_min x_max y_min y_max rnd =
     (if n < 0 then Inl ValueError
      else Inr (map (\<lambda>i. needle length' x_min x_max y_min y_max (rnd i)) [0..<nat n]))"

subsection \<open>The global simulation state (lines 43--51)\<close>

text \<open>
  A segment is the pair of end points appended to \<^verbatim>\<open>green_needles\<close> or
  \<^verbatim>\<open>red_needles\<close>. Of the figure only the title of the right-hand plot is kept,
  because it is where the estimate of \<open>\<pi>\<close> is reported: \<open>Convergence\<close> is the title
  set at line 36, \<open>Estimation t\<close> the one of line 171 with \<^verbatim>\<open>pi_text\<close> \<open>t\<close>
  (\<open>NA\<close> for \<^verbatim>\<open>'N/A'\<close>, \<open>Estimate v\<close> for the formatted number \<open>v\<close>). The other
  drawing calls (collections, opacity, legend, left-hand title) read the state and
  write none of it.
\<close>

type_synonym segment = "(real \<times> real) \<times> (real \<times> real)"

datatype pi_text = NA | Estimate real

datatype title = Convergence | Estimation pi_text

record state =
  n_intersections :: int
  n_total :: int
  history_n :: "int list"
  history_ratio :: "real list"
  green_needles :: "segment list"
  red_needles :: "segment list"
  ax2_title :: title

definition initial_state :: state where
  "initial_state =
     \<lparr>n_intersections = 0, n_total = 0, history_n = [], history_ratio = [],
      green_needles = [], red_needles = [], ax2_title = Convergence\<rparr>"

subsection \<open>The per-frame update (lines 115--173)\<close>

text \<open>
  The loop of lines 128--138 over the rows and their flags: a crossing needle goes to
  \<^verbatim>\<open>green_needles\<close> and counts as an intersection, any other goes to
  \<^verbatim>\<open>red_needles\<close>; each one counts in \<^verbatim>\<open>n_total\<close>.
\<close>

fun collect :: "row list \<Rightarrow> bool list \<Rightarrow> state \<Rightarrow> state" where
  "collect ((x1, y1, x2, y2) # positions) (b # intersects) s =
     (let segment = ((x1, y1), (x2, y2));
          s1 = (if b
                then s\<lparr>green_needles := green_needles s @ [segment],
                       n_intersections := n_intersections s + 1\<rparr>
                else s\<lparr>red_needles := red_needles s @ [segment]\<rparr>)
      in collect positions intersects (s1\<lparr>n_total := n_total s1 + 1\<rparr>))"
| "collect _ _ s = s"

text \<open>
  Lines 150--171: the history and the estimate of \<open>\<pi>\<close>. Nothing is computed while
  \<^verbatim>\<open>n_total\<close> is not positive; the estimate is only formed for a ratio above
  \<open>0.01\<close>, and its division raises when the denominator is zero. A call that raises
  returns the error alone.
\<close>

definition report :: "params \<Rightarrow> state \<Rightarrow> py_error + state" where
  "report p s =
     (if n_total s > 0 then
        let ratio = of_int (n_intersections s) / of_int (n_total s);
            s1 = s\<lparr>history_n := history_n s @ [n_total s],
                    history_ratio := history_ratio s @ [ratio]\<rparr>
        in if ratio > 1 / 100 then
             (if ratio * LINE_SPACING p = 0 then Inl ZeroDivisionError
              else Inr (s1\<lparr>ax2_title :=
                     Estimation (Estimate (2 * NEEDLE_LENGTH p / (ratio * LINE_SPACING p)))\<rparr>))
           else Inr (s1\<lparr>ax2_title := Estimation NA\<rparr>)
      else Inr s)"

text \<open>
  \<open>update\<close> itself. The frame number only chooses when the plot is redrawn, so the
  state does not depend on it. The field is \<open>[0, 10] \<times> [0, 10]\<close>.
\<close>

definition update :: "params \<Rightarrow> draws \<Rightarrow> int \<Rightarrow> state \<Rightarrow> (py_error + state) option" where
  "update p rnd frame s =
     (if n_total s \<ge> MAX_NEEDLES p then Some (Inr s)
      else
        let n_to_add = min (N_NEEDLES_PER_FRAME p) (MAX_NEEDLES p - n_total s)
        in case generate_needles_batch n_to_add (NEEDLE_LENGTH p) 0 10 0 10 rnd of
             Inl e \<Rightarrow> Some (Inl e)
           | Inr positions \<Rightarrow>
               (case check_intersections_batch positions (LINE_SPACING p) of
                  None \<Rightarrow> None
                | Some (Inl e) \<Rightarrow> Some (Inl e)
                | Some (Inr intersects) \<Rightarrow> Some (report p (collect positions intersects s))))"

subsection \<open>The specification's own notions\<close>

text \<open>
  The line family of the specification: a needle with end points at heights \<open>y1\<close> and
  \<open>y2\<close> crosses a line when some integer multiple of the spacing lies in the closed
  interval between them.
\<close>

definition crosses_line :: "real \<Rightarrow> real \<Rightarrow> real \<Rightarrow> bool" where
  "crosses_line y1 y2 D =
     (\<exists>k::int. min y1 y2 \<le> of_int k * D \<and> of_int k * D \<le> max y1 y2)"

text \<open>
  The closed form of the specification, in its words: the floors of the two quotients
  differ, or the lower quotient is itself an integer.
\<close>

definition floor_test :: "real \<Rightarrow> real \<Rightarrow> real \<Rightarrow> bool" where
  "floor_test y1 y2 spacing =
     (let y_lo = min y1 y2;
          y_hi = max y1 y2
      in \<lfloor>y_hi / spacing\<rfloor> > \<lfloor>y_lo / spacing\<rfloor> \<or> of_int \<lfloor>y_lo / spacing\<rfloor> = y_lo / spacing)"


text \<open>The two heights of a row, which is all the classifier reads of it.\<close>

definition heights :: "row \<Rightarrow> real \<times> real" where
  "heights r = (case r of (x1, y1, x2, y2) \<Rightarrow> (y1, y2))"

text \<open>The Euclidean length of a row's segment.\<close>

definition euclidean_length :: "row \<Rightarrow> real" where
  "euclidean_length r = (case r of (x1, y1, x2, y2) \<Rightarrow> sqrt ((x2 - x1)\<^sup>2 + (y2 - y1)\<^sup>2))"

text \<open>
  The states of a run: the initial state, and every state a successful call of
  \<open>update\<close> returns from one of them, for any random source and frame number.
\<close>

inductive reachable :: "params \<Rightarrow> state \<Rightarrow> bool" for p :: params where
  start: "reachable p initial_state"
| step: "reachable p s \<Longrightarrow> update p rnd frame s = Some (Inr s') \<Longrightarrow> reachable p s'"

text \<open>
  Sample inputs: a random source whose needles lie flat (angle \<open>0\<close>), alternately on
  the line \<open>y = 0\<close> and at height \<open>1/2\<close>, and a small configuration.
\<close>

definition flat_draws :: draws where
  "flat_draws i = (0, if even i then 0 else 1 / 20, 0)"

definition small_params :: params where
  "small_params =
     \<lparr>NEEDLE_LENGTH = 1, LINE_SPACING = 1, N_NEEDLES_PER_FRAME = 2, MAX_NEEDLES = 3\<rparr>"

text \<open>
  The state after the first frame of that configuration on \<open>flat_draws\<close>; a source
  whose needles all lie at height \<open>1/2\<close> and the state after its first frame; and a
  configuration with a negative needle length.
\<close>

definition after_first_frame :: state where
  "after_first_frame =
     \<lparr>n_intersections = 1, n_total = 2, history_n = [2], history_ratio = [1 / 2],
      green_needles = [((0, 0), (1, 0))], red_needles = [((0, 1 / 2), (1, 1 / 2))],
      ax2_title = Estimation (Estimate 4)\<rparr>"




section \<open>Properties of the arithmetic\<close>

lemma pow2_powr: "pow2 e = 2 powr of_int e"
  by (simp add: pow2_def powr_real_of_int divide_inverse)

text \<open>Rounding a number whose binade is known.\<close>

lemma round64_eval:
  assumes "pow2 E \<le> \<bar>x\<bar>" and "\<bar>x\<bar> < pow2 (E + 1)"
  shows "round64 x = of_int (rne (x / pow2 (max (E - 52) (- 1074)))) * pow2 (max (E - 52) (- 1074))"
proof -
  have "(0::real) < 2 powr of_int E" by simp
  then have pos: "0 < \<bar>x\<bar>"
    using assms(1) unfolding pow2_powr by (rule less_le_trans)
  then have nz: "x \<noteq> 0" by auto
  have "\<lfloor>log 2 \<bar>x\<bar>\<rfloor> = E"
    using assms pos by (simp add: floor_log_eq_powr_iff pow2_powr)
  then show ?thesis using nz by (simp add: round64_def Let_def)
qed

lemma round64_0: "round64 0 = 0"
  by (simp add: round64_def)

text \<open>Small integers and halves are float64 values.\<close>

lemma round64_half: "round64 (1 / 2) = 1 / 2"
  by (subst round64_eval [where E = "- 1"]) (simp_all add: pow2_def rne_def)



lemma round64_1: "round64 (1) = 1"
  by (subst round64_eval [where E = 0]) (simp_all add: pow2_def rne_def)

lemma round64_2: "round64 (2) = 2"
  by (subst round64_eval [where E = 1]) (simp_all add: pow2_def rne_def)







text \<open>
  The needle from height \<open>3.24\<close> to height \<open>3.36\<close> with spacing \<open>0.24\<close>: the literals,
  the two quotients (\<open>13.500000000000002\<close> and \<open>14\<close>), the multiples \<open>13\<close> and \<open>15\<close> of the
  spacing (\<open>3.12\<close> and \<open>3.5999999999999996\<close>), and the two additions of the loop
  (\<open>3.3600000000000003\<close> and \<open>3.6000000000000005\<close>).
\<close>

lemma float_3_24: "round64 3.24 = 1823957849085051 / 562949953421312"
  by (subst round64_eval [where E = 1]) (simp_all add: pow2_def rne_def)

lemma float_3_36: "round64 3.36 = 7566047373982433 / 2251799813685248"
  by (subst round64_eval [where E = 1]) (simp_all add: pow2_def rne_def)

lemma float_0_24: "round64 0.24 = 1080863910568919 / 4503599627370496"
  by (subst round64_eval [where E = "- 3"]) (simp_all add: pow2_def rne_def)

lemma upper_q_below: "round64 (14591662792680408 / 1080863910568919) = 7599824371187713 / 562949953421312"
  by (subst round64_eval [where E = 3]) (simp_all add: pow2_def rne_def)

lemma upper_q_above: "round64 (14) = 14"
  by (subst round64_eval [where E = 3]) (simp_all add: pow2_def rne_def)

lemma round64_13: "round64 (13) = 13"
  by (subst round64_eval [where E = 3]) (simp_all add: pow2_def rne_def)

lemma round64_15: "round64 (15) = 15"
  by (subst round64_eval [where E = 3]) (simp_all add: pow2_def rne_def)

lemma upper_line_below: "round64 (14051230837395947 / 4503599627370496) = 3512807709348987 / 1125899906842624"
  by (subst round64_eval [where E = 1]) (simp_all add: pow2_def rne_def)

lemma upper_line_above: "round64 (16212958658533785 / 4503599627370496) = 2026619832316723 / 562949953421312"
  by (subst round64_eval [where E = 1]) (simp_all add: pow2_def rne_def)

lemma upper_step_1: "round64 (15132094747964867 / 4503599627370496) = 3783023686991217 / 1125899906842624"
  by (subst round64_eval [where E = 1]) (simp_all add: pow2_def rne_def)

lemma upper_step_2: "round64 (16212958658533787 / 4503599627370496) = 4053239664633447 / 1125899906842624"
  by (subst round64_eval [where E = 1]) (simp_all add: pow2_def rne_def)

text \<open>
  The needle lying at height \<open>1.7\<close> with spacing \<open>1e-17\<close>: the literals, the quotient
  \<open>169999999999999968\<close>, its successor (which rounds back to it), their common multiple
  of the spacing \<open>1.6999999999999997\<close>, and the addition of the loop, which returns the
  same value.
\<close>

lemma float_1_7: "round64 1.7 = 7656119366529843 / 4503599627370496"
  by (subst round64_eval [where E = 0]) (simp_all add: pow2_def rne_def)

lemma float_1e_17: "round64 (1 / 10 ^ 17) = 6490371073168535 / 649037107316853453566312041152512"
  by (subst round64_eval [where E = "- 57"]) (simp_all add: pow2_def rne_def)

lemma tiny_q: "round64 (1103363082438650842239692854788096 / 6490371073168535) = 169999999999999968"
  by (subst round64_eval [where E = 57]) (simp_all add: pow2_def rne_def)

lemma tiny_k: "round64 (169999999999999968) = 169999999999999968"
  by (subst round64_eval [where E = 57]) (simp_all add: pow2_def rne_def)

lemma tiny_k_succ: "round64 (169999999999999969) = 169999999999999968"
  by (subst round64_eval [where E = 57]) (simp_all add: pow2_def rne_def)

lemma tiny_line: "round64 (34480096326207835697128926831465 / 20282409603651670423947251286016) = 3828059683264921 / 2251799813685248"
  by (subst round64_eval [where E = 0]) (simp_all add: pow2_def rne_def)

lemma tiny_step: "round64 (1103363082438650704614875852100759 / 649037107316853453566312041152512) = 3828059683264921 / 2251799813685248"
  by (subst round64_eval [where E = 0]) (simp_all add: pow2_def rne_def)

section \<open>Properties of the classifier\<close>

subsection \<open>The sweep and its record of visits\<close>

text \<open>A loop that is inside its limit, misses, and whose addition changes nothing never exits.\<close>

lemma sweep_stuck:
  assumes "f64_le line_y line_above"
    and "\<not> (f64_le (Fin y_min) line_y \<and> f64_le line_y (Fin y_max))"
    and "fadd line_y spacing = line_y"
  shows "sweep y_min y_max spacing line_above line_y = None"
proof (cases "sweep y_min y_max spacing line_above line_y")
  case None
  then show ?thesis .
next
  case (Some r)
  let ?P = "\<lambda>a b c d e (r::bool).
      \<not> (a = y_min \<and> b = y_max \<and> c = spacing \<and> d = line_above \<and> e = line_y)"
  have "?P y_min y_max spacing line_above line_y r"
  proof (rule sweep.raw_induct [where P = ?P, OF _ Some])
    fix sw a b c d e and r' :: bool
    assume IH: "\<And>a b c d e r. sw a b c d e = Some r \<Longrightarrow> ?P a b c d e r"
      and body: "(if f64_le e d
           then if f64_le (Fin a) e \<and> f64_le e (Fin b) then Some True
                else sw a b c d (fadd e c)
           else Some False) = Some r'"
    show "?P a b c d e r'"
    proof
      assume here: "a = y_min \<and> b = y_max \<and> c = spacing \<and> d = line_above \<and> e = line_y"
      with body assms have "sw y_min y_max spacing line_above line_y = Some r'"
        by simp
      from IH [OF this] show False by simp
    qed
  qed
  then show ?thesis by simp
qed





lemma check_intersection_heights:
  assumes "heights r = heights r'"
  shows "check_intersection r spacing = check_intersection r' spacing"
proof -
  obtain x1 y1 x2 y2 where r: "r = (x1, y1, x2, y2)" by (cases r) auto
  obtain x1' y1' x2' y2' where r': "r' = (x1', y1', x2', y2')" by (cases r') auto
  from assms have "y1 = y1'" "y2 = y2'" by (simp_all add: r r' heights_def)
  then show ?thesis by (simp add: r r' check_intersection_def)
qed

subsection \<open>What the classifier reads\<close>

text \<open>
  Claim C5. The flags depend on the heights only: two batches whose rows agree in
  \<open>y1\<close> and \<open>y2\<close> get the same outcome, whatever their \<open>x\<close> coordinates are.
\<close>

theorem classifier_ignores_x:
  "map heights ps = map heights qs \<Longrightarrow>
   check_intersections_batch ps spacing = check_intersections_batch qs spacing"
proof (induction ps arbitrary: qs)
  case Nil
  then show ?case by simp
next
  case (Cons r rs)
  then obtain r' rs' where qs: "qs = r' # rs'" by (cases qs) auto
  with Cons.prems have h: "heights r = heights r'" and t: "map heights rs = map heights rs'"
    by simp_all
  show ?case
    by (simp add: qs check_intersection_heights [OF h] Cons.IH [OF t]
          cong: option.case_cong sum.case_cong)
qed

text \<open>Two batches with the same heights and unrelated abscissae.\<close>

theorem classifier_ignores_x_witness:
  "check_intersections_batch [(0, 0, 1, 0), (3, 1 / 2, 4, 1 / 2)] 1 =
   check_intersections_batch [(7, 0, - 2, 0), (5, 1 / 2, 9, 1 / 2)] 1"
proof -
  have "map heights [(0, 0, 1, 0), (3, 1 / 2, 4, 1 / 2)] =
        map heights [(7, 0, - 2, 0), (5, 1 / 2, 9, 1 / 2 :: real)]"
    by (simp add: heights_def)
  then show ?thesis by (rule classifier_ignores_x)
qed

subsection \<open>A line at the upper end of a needle\<close>

text \<open>
  The sweep of the needle from height \<open>3.24\<close> to height \<open>3.36\<close> with spacing \<open>0.24\<close>:
  it starts at \<open>3.12\<close>, below the needle; the rounded sum \<open>3.12 + 0.24\<close> is
  \<open>3.3600000000000003\<close>, above the needle; the next sum is past the limit.
\<close>

lemma upper_end_sweep:
  "check_intersection
     (x1, 1823957849085051 / 562949953421312, x2, 7566047373982433 / 2251799813685248)
     (1080863910568919 / 4503599627370496) = Some (Inr False)"
  "check_intersection
     (x1, 7566047373982433 / 2251799813685248, x2, 1823957849085051 / 562949953421312)
     (1080863910568919 / 4503599627370496) = Some (Inr False)"
  by (simp_all add: check_intersection_def fl_def py_int_def sweep.simps
        upper_q_below upper_q_above round64_13 round64_15 upper_line_below upper_line_above
        upper_step_1 upper_step_2)

text \<open>
  Claim C1 fails on the code at this needle. The line \<open>14 * 0.24\<close> is the upper end
  \<open>3.36\<close> of the needle, exactly, so a line lies in the closed interval of its
  heights; the batch classifier reports that the needle crosses no line.
\<close>

theorem line_in_interval_not_reported:
  "crosses_line (round64 3.24) (round64 3.36) (round64 0.24) \<and>
   check_intersections_batch [(0, round64 3.24, 0, round64 3.36)] (round64 0.24) =
     Some (Inr [False])"
proof
  have "min (round64 3.24) (round64 3.36) \<le> of_int 14 * round64 0.24 \<and>
        of_int 14 * round64 0.24 \<le> max (round64 3.24) (round64 3.36)"
    unfolding float_3_24 float_3_36 float_0_24 by simp
  then show "crosses_line (round64 3.24) (round64 3.36) (round64 0.24)"
    unfolding crosses_line_def by (rule exI)
next
  show "check_intersections_batch [(0, round64 3.24, 0, round64 3.36)] (round64 0.24) =
     Some (Inr [False])"
    unfolding float_3_24 float_3_36 float_0_24 by (simp add: upper_end_sweep)
qed

text \<open>
  Claim C6 fails on the code at the same heights. The upper end of the needle's
  interval is the line position \<open>14 * 0.24\<close> exactly, and the needle, here given from
  its upper end to its lower end, is classified as not intersecting.
\<close>

theorem needle_ending_on_line_not_flagged:
  "max (round64 3.36) (round64 3.24) = of_int 14 * round64 0.24 \<and>
   check_intersection (2, round64 3.36, 1, round64 3.24) (round64 0.24) = Some (Inr False)"
proof
  show "max (round64 3.36) (round64 3.24) = of_int 14 * round64 0.24"
    unfolding float_3_24 float_3_36 float_0_24 by simp
next
  show "check_intersection (2, round64 3.36, 1, round64 3.24) (round64 0.24) = Some (Inr False)"
    unfolding float_3_24 float_3_36 float_0_24 by (rule upper_end_sweep(2))
qed

subsection \<open>A spacing too small for the sweep to advance\<close>

text \<open>
  Claim C10 fails on the code. For the needle lying at height \<open>1.7\<close> and the positive
  spacing \<open>1e-17\<close>, the sweep starts at \<open>1.6999999999999997\<close>, which is also its
  limit and misses the needle; adding the spacing returns the same number, so the loop
  never exits and the classifier returns nothing.
\<close>

theorem sweep_never_exits:
  "0 < round64 (1 / 10 ^ 17) \<and>
   check_intersection (0, round64 1.7, 0, round64 1.7) (round64 (1 / 10 ^ 17)) = None \<and>
   check_intersections_batch [(0, round64 1.7, 0, round64 1.7)] (round64 (1 / 10 ^ 17)) = None"
proof (intro conjI)
  show "0 < round64 (1 / 10 ^ 17)"
    unfolding float_1e_17 by simp
next
  have stuck: "sweep (7656119366529843 / 4503599627370496) (7656119366529843 / 4503599627370496)
      (6490371073168535 / 649037107316853453566312041152512)
      (Fin (3828059683264921 / 2251799813685248)) (Fin (3828059683264921 / 2251799813685248)) = None"
    by (rule sweep_stuck) (simp_all add: fl_def tiny_step)
  show one: "check_intersection (0, round64 1.7, 0, round64 1.7) (round64 (1 / 10 ^ 17)) = None"
    unfolding float_1_7 float_1e_17
    by (simp add: check_intersection_def fl_def py_int_def tiny_q tiny_k tiny_k_succ tiny_line
          stuck)
  show "check_intersections_batch [(0, round64 1.7, 0, round64 1.7)] (round64 (1 / 10 ^ 17)) = None"
    by (simp only: check_intersections_batch.simps one option.case)
qed

subsection \<open>How the flag is computed\<close>




text \<open>
  The flag is not stated to equal the closed form of the specification: for the needle
  from height \<open>3.24\<close> to height \<open>3.36\<close> and spacing \<open>0.24\<close> the floors of the two
  quotients are \<open>13\<close> and \<open>14\<close>, so the closed form holds, and the sweep answers that
  the needle crosses no line.
\<close>

lemma floor_test_differs:
  "floor_test (round64 3.24) (round64 3.36) (round64 0.24) \<and>
   check_intersection (0, round64 3.24, 0, round64 3.36) (round64 0.24) = Some (Inr False)"
  unfolding float_3_24 float_3_36 float_0_24
  by (simp add: floor_test_def upper_end_sweep)


section \<open>Properties of the sampler\<close>

lemma uniform_between:
  assumes "low \<le> high" and "0 \<le> u" and "u < 1"
  shows "low \<le> uniform low high u \<and> uniform low high u \<le> high"
proof -
  have "0 \<le> (high - low) * u" using assms(1,2) by simp
  moreover have "(high - low) * u \<le> (high - low) * 1"
    using assms(1,3) by (intro mult_left_mono) simp_all
  ultimately show ?thesis by (simp add: uniform_def)
qed

lemma uniform_angle:
  assumes "0 \<le> u" and "u < 1"
  shows "0 \<le> uniform 0 (2 * pi) u \<and> uniform 0 (2 * pi) u < 2 * pi"
  using assms by (simp add: uniform_def)

lemma segment_length:
  assumes "0 \<le> length'"
  shows "sqrt ((x + length' * cos t - x)\<^sup>2 + (y + length' * sin t - y)\<^sup>2) = length'"
proof -
  have "(length' * cos t)\<^sup>2 + (length' * sin t)\<^sup>2 =
        length'\<^sup>2 * (cos t)\<^sup>2 + length'\<^sup>2 * (sin t)\<^sup>2"
    by (simp only: power_mult_distrib)
  also have "\<dots> = length'\<^sup>2 * ((sin t)\<^sup>2 + (cos t)\<^sup>2)"
    by (simp only: distrib_left add.commute)
  also have "\<dots> = length'\<^sup>2"
    by (simp only: sin_cos_squared_add mult_1_right)
  finally have "sqrt ((length' * cos t)\<^sup>2 + (length' * sin t)\<^sup>2) = sqrt (length'\<^sup>2)" by simp
  then show ?thesis using assms by simp
qed

lemma needle_shape:
  assumes "x_min \<le> x_max" and "y_min \<le> y_max" and "0 \<le> length'"
    and "0 \<le> ux \<and> ux < 1" and "0 \<le> uy \<and> uy < 1" and "0 \<le> ua \<and> ua < 1"
  shows "case needle length' x_min x_max y_min y_max (ux, uy, ua) of (x1, y1, x2, y2) \<Rightarrow>
           x_min \<le> x1 \<and> x1 \<le> x_max \<and> y_min \<le> y1 \<and> y1 \<le> y_max \<and>
           (\<exists>\<theta>. 0 \<le> \<theta> \<and> \<theta> < 2 * pi \<and>
                x2 = x1 + length' * cos \<theta> \<and> y2 = y1 + length' * sin \<theta>) \<and>
           euclidean_length (x1, y1, x2, y2) = length'"
proof -
  let ?t = "uniform 0 (2 * pi) ua"
  have x: "x_min \<le> uniform x_min x_max ux \<and> uniform x_min x_max ux \<le> x_max"
    using assms(1,4) by (simp add: uniform_between)
  have y: "y_min \<le> uniform y_min y_max uy \<and> uniform y_min y_max uy \<le> y_max"
    using assms(2,5) by (simp add: uniform_between)
  have t: "0 \<le> ?t \<and> ?t < 2 * pi"
    using assms(6) by (simp add: uniform_angle)
  have "\<exists>\<theta>. 0 \<le> \<theta> \<and> \<theta> < 2 * pi \<and>
          uniform x_min x_max ux + length' * cos ?t = uniform x_min x_max ux + length' * cos \<theta> \<and>
          uniform y_min y_max uy + length' * sin ?t = uniform y_min y_max uy + length' * sin \<theta>"
    using t by blast
  then show ?thesis
    using x y segment_length [OF assms(3)]
    by (simp add: needle_def Let_def euclidean_length_def)
qed

text \<open>
  Claim C7. For \<open>n \<ge> 0\<close>, ordered bounds, a non-negative length and unit variates
  in \<open>[0, 1)\<close>, the sampler returns exactly \<open>n\<close> rows without error (none for
  \<open>n = 0\<close>); each row starts at a point of the field
  \<open>[x_min, x_max] \<times> [y_min, y_max]\<close>, ends at that point moved by the length in some
  direction \<open>\<theta>\<close> of \<open>[0, 2\<pi>)\<close>, and so has the configured Euclidean length.
\<close>

theorem sampler_batch:
  assumes "0 \<le> n" and "x_min \<le> x_max" and "y_min \<le> y_max" and "0 \<le> length'"
    and "\<forall>i < nat n. case rnd i of (ux, uy, ua) \<Rightarrow>
           0 \<le> ux \<and> ux < 1 \<and> 0 \<le> uy \<and> uy < 1 \<and> 0 \<le> ua \<and> ua < 1"
  shows "\<exists>positions.
           generate_needles_batch n length' x_min x_max y_min y_max rnd = Inr positions \<and>
           length positions = nat n \<and>
           (n = 0 \<longrightarrow> positions = []) \<and>
           (\<forall>r \<in> set positions. case r of (x1, y1, x2, y2) \<Rightarrow>
              x_min \<le> x1 \<and> x1 \<le> x_max \<and> y_min \<le> y1 \<and> y1 \<le> y_max \<and>
              (\<exists>\<theta>. 0 \<le> \<theta> \<and> \<theta> < 2 * pi \<and>
                   x2 = x1 + length' * cos \<theta> \<and> y2 = y1 + length' * sin \<theta>) \<and>
              euclidean_length (x1, y1, x2, y2) = length')"
proof -
  let ?ps = "map (\<lambda>i. needle length' x_min x_max y_min y_max (rnd i)) [0..<nat n]"
  have gen: "generate_needles_batch n length' x_min x_max y_min y_max rnd = Inr ?ps"
    using assms(1) by (simp add: generate_needles_batch_def)
  have each: "case r of (x1, y1, x2, y2) \<Rightarrow>
              x_min \<le> x1 \<and> x1 \<le> x_max \<and> y_min \<le> y1 \<and> y1 \<le> y_max \<and>
              (\<exists>\<theta>. 0 \<le> \<theta> \<and> \<theta> < 2 * pi \<and>
                   x2 = x1 + length' * cos \<theta> \<and> y2 = y1 + length' * sin \<theta>) \<and>
              euclidean_length (x1, y1, x2, y2) = length'"
    if "r \<in> set ?ps" for r
  proof -
    from that obtain i where i: "i < nat n" and r: "r = needle length' x_min x_max y_min y_max (rnd i)"
      by auto
    obtain ux uy ua where d: "rnd i = (ux, uy, ua)" by (cases "rnd i") auto
    with assms(5) i have u: "0 \<le> ux \<and> ux < 1" "0 \<le> uy \<and> uy < 1" "0 \<le> ua \<and> ua < 1"
      by auto
    show ?thesis
      unfolding r d by (rule needle_shape [OF assms(2,3,4) u])
  qed
  have "length ?ps = nat n \<and> (n = 0 \<longrightarrow> ?ps = [])" by simp
  with gen each show ?thesis by blast
qed

text \<open>Two needles of length \<open>1\<close> on the field of the program.\<close>

theorem sampler_batch_witness:
  "\<exists>positions.
     generate_needles_batch 2 1 0 10 0 10 flat_draws = Inr positions \<and>
     length positions = nat 2 \<and>
     (\<forall>r \<in> set positions. case r of (x1, y1, x2, y2) \<Rightarrow>
        0 \<le> x1 \<and> x1 \<le> 10 \<and> 0 \<le> y1 \<and> y1 \<le> 10 \<and>
        (\<exists>\<theta>. 0 \<le> \<theta> \<and> \<theta> < 2 * pi \<and> x2 = x1 + 1 * cos \<theta> \<and> y2 = y1 + 1 * sin \<theta>) \<and>
        euclidean_length (x1, y1, x2, y2) = 1)"
proof -
  have n: "(0::int) \<le> 2" by simp
  have b: "(0::real) \<le> 10" by simp
  have l: "(0::real) \<le> 1" by simp
  have u: "\<forall>i < nat 2. case flat_draws i of (ux, uy, ua) \<Rightarrow>
           0 \<le> ux \<and> ux < 1 \<and> 0 \<le> uy \<and> uy < 1 \<and> 0 \<le> ua \<and> ua < 1"
    by (simp add: flat_draws_def)
  from sampler_batch [OF n b b l u] show ?thesis by blast
qed

section \<open>Properties of the accumulator\<close>

subsection \<open>One call of \<open>update\<close>\<close>

lemma collect_totals:
  assumes "length positions = length intersects"
  shows "n_total (collect positions intersects s) = n_total s + int (length positions) \<and>
         n_intersections (collect positions intersects s) =
           n_intersections s + int (length (filter (\<lambda>b. b) intersects)) \<and>
         history_n (collect positions intersects s) = history_n s \<and>
         history_ratio (collect positions intersects s) = history_ratio s \<and>
         ax2_title (collect positions intersects s) = ax2_title s"
  using assms
proof (induction positions intersects arbitrary: s rule: list_induct2)
  case Nil
  show ?case by simp
next
  case (Cons r rs b bs)
  obtain x1 y1 x2 y2 where r: "r = (x1, y1, x2, y2)" by (cases r) auto
  show ?case by (simp add: r Cons.IH Let_def)
qed

lemma report_keeps_totals:
  assumes "report p s = Inr s'"
  shows "n_total s' = n_total s \<and> n_intersections s' = n_intersections s"
  using assms by (auto simp: report_def Let_def split: if_splits)

lemma report_title:
  assumes "report p s = Inr s'"
  shows "if n_total s \<le> 0
         then ax2_title s' = ax2_title s \<and> history_ratio s' = history_ratio s \<and>
              history_n s' = history_n s
         else if of_int (n_intersections s) / of_int (n_total s) \<le> (1 / 100 :: real)
         then ax2_title s' = Estimation NA
         else ax2_title s' =
              Estimation (Estimate (2 * NEEDLE_LENGTH p /
                (of_int (n_intersections s) / of_int (n_total s) * LINE_SPACING p)))"
  using assms by (auto simp: report_def Let_def split: if_splits)

lemma generate_needles_batch_length:
  assumes "generate_needles_batch n length' x_min x_max y_min y_max rnd = Inr positions"
  shows "0 \<le> n \<and> length positions = nat n"
  using assms by (auto simp: generate_needles_batch_def split: if_splits)

lemma check_intersections_batch_length:
  "check_intersections_batch positions spacing = Some (Inr intersects) \<Longrightarrow>
   length intersects = length positions"
proof (induction positions arbitrary: intersects)
  case Nil
  then show ?case by simp
next
  case (Cons r rs)
  then show ?case by (auto split: option.splits sum.splits)
qed

lemma update_applied:
  assumes "update p rnd frame s = Some (Inr s')" and "n_total s < MAX_NEEDLES p"
  obtains positions intersects where
    "generate_needles_batch (min (N_NEEDLES_PER_FRAME p) (MAX_NEEDLES p - n_total s))
       (NEEDLE_LENGTH p) 0 10 0 10 rnd = Inr positions"
    and "check_intersections_batch positions (LINE_SPACING p) = Some (Inr intersects)"
    and "report p (collect positions intersects s) = Inr s'"
  using assms by (auto simp: update_def Let_def split: sum.splits option.splits)

lemma update_idle:
  assumes "MAX_NEEDLES p \<le> n_total s"
  shows "update p rnd frame s = Some (Inr s)"
  using assms by (simp add: update_def)

lemma update_accumulates_step:
  assumes "update p rnd frame s = Some (Inr s')"
    and "0 \<le> n_intersections s" and "n_intersections s \<le> n_total s"
  shows "0 \<le> n_intersections s' \<and> n_intersections s' \<le> n_total s' \<and>
         n_intersections s \<le> n_intersections s' \<and> n_total s \<le> n_total s' \<and>
         (if MAX_NEEDLES p \<le> n_total s then s' = s
          else \<exists>positions intersects.
                 generate_needles_batch (min (N_NEEDLES_PER_FRAME p) (MAX_NEEDLES p - n_total s))
                   (NEEDLE_LENGTH p) 0 10 0 10 rnd = Inr positions \<and>
                 check_intersections_batch positions (LINE_SPACING p) = Some (Inr intersects) \<and>
                 length intersects = length positions \<and>
                 n_total s' = n_total s + int (length positions) \<and>
                 n_intersections s' =
                   n_intersections s + int (length (filter (\<lambda>b. b) intersects)))"
proof (cases "MAX_NEEDLES p \<le> n_total s")
  case True
  then have "s' = s" using assms(1) by (simp add: update_idle)
  then show ?thesis using True assms(2,3) by simp
next
  case False
  then have "n_total s < MAX_NEEDLES p" by simp
  from update_applied [OF assms(1) this]
  obtain positions intersects where
    g: "generate_needles_batch (min (N_NEEDLES_PER_FRAME p) (MAX_NEEDLES p - n_total s))
       (NEEDLE_LENGTH p) 0 10 0 10 rnd = Inr positions"
    and c: "check_intersections_batch positions (LINE_SPACING p) = Some (Inr intersects)"
    and r: "report p (collect positions intersects s) = Inr s'"
    by blast
  have len: "length intersects = length positions"
    using c by (rule check_intersections_batch_length)
  then have len': "length positions = length intersects" by simp
  have t: "n_total s' = n_total s + int (length positions)"
    using report_keeps_totals [OF r] collect_totals [OF len', of s] by simp
  have i: "n_intersections s' = n_intersections s + int (length (filter (\<lambda>b. b) intersects))"
    using report_keeps_totals [OF r] collect_totals [OF len', of s] by simp
  have "length (filter (\<lambda>b. b) intersects) \<le> length positions"
    using length_filter_le [of "\<lambda>b. b" intersects] len by simp
  then have bounds: "0 \<le> n_intersections s' \<and> n_intersections s' \<le> n_total s' \<and>
         n_intersections s \<le> n_intersections s' \<and> n_total s \<le> n_total s'"
    using t i assms(2,3) by simp
  have "\<exists>positions intersects.
                 generate_needles_batch (min (N_NEEDLES_PER_FRAME p) (MAX_NEEDLES p - n_total s))
                   (NEEDLE_LENGTH p) 0 10 0 10 rnd = Inr positions \<and>
                 check_intersections_batch positions (LINE_SPACING p) = Some (Inr intersects) \<and>
                 length intersects = length positions \<and>
                 n_total s' = n_total s + int (length positions) \<and>
                 n_intersections s' =
                   n_intersections s + int (length (filter (\<lambda>b. b) intersects))"
    using g c len t i by blast
  then show ?thesis using False bounds by simp
qed

lemma update_title:
  assumes "update p rnd frame s = Some (Inr s')" and "n_total s < MAX_NEEDLES p"
  shows "if n_total s' \<le> 0
         then ax2_title s' = ax2_title s \<and> history_ratio s' = history_ratio s \<and>
              history_n s' = history_n s
         else if of_int (n_intersections s') / of_int (n_total s') \<le> (1 / 100 :: real)
         then ax2_title s' = Estimation NA
         else ax2_title s' =
              Estimation (Estimate (2 * NEEDLE_LENGTH p /
                (of_int (n_intersections s') / of_int (n_total s') * LINE_SPACING p)))"
proof -
  from update_applied [OF assms]
  obtain positions intersects where
    c: "check_intersections_batch positions (LINE_SPACING p) = Some (Inr intersects)"
    and r: "report p (collect positions intersects s) = Inr s'"
    by blast
  let ?c = "collect positions intersects s"
  have len: "length positions = length intersects"
    using check_intersections_batch_length [OF c] by simp
  have same: "n_total s' = n_total ?c" "n_intersections s' = n_intersections ?c"
    using report_keeps_totals [OF r] by simp_all
  have kept: "ax2_title ?c = ax2_title s" "history_ratio ?c = history_ratio s"
    "history_n ?c = history_n s"
    using collect_totals [OF len, of s] by simp_all
  show ?thesis
    using report_title [OF r] unfolding same kept by simp
qed

lemma update_title_step:
  assumes "update p rnd frame s = Some (Inr s')"
  shows "n_total s \<le> n_total s' \<and> (n_total s' \<le> 0 \<longrightarrow> ax2_title s' = ax2_title s)"
proof (cases "MAX_NEEDLES p \<le> n_total s")
  case True
  then have "s' = s" using assms by (simp add: update_idle)
  then show ?thesis by simp
next
  case False
  then have lt: "n_total s < MAX_NEEDLES p" by simp
  from update_applied [OF assms lt]
  obtain positions intersects where
    c: "check_intersections_batch positions (LINE_SPACING p) = Some (Inr intersects)"
    and r: "report p (collect positions intersects s) = Inr s'"
    by blast
  have len: "length positions = length intersects"
    using check_intersections_batch_length [OF c] by simp
  have "n_total s' = n_total s + int (length positions)"
    using report_keeps_totals [OF r] collect_totals [OF len, of s] by simp
  moreover have "n_total s' \<le> 0 \<longrightarrow> ax2_title s' = ax2_title s"
    using update_title [OF assms lt] by simp
  ultimately show ?thesis by simp
qed


lemma update_adds:
  assumes "n_total s < MAX_NEEDLES p" and "update p rnd frame s = Some (Inr s')"
  shows "n_total s' = n_total s + min (N_NEEDLES_PER_FRAME p) (MAX_NEEDLES p - n_total s)"
proof -
  from update_applied [OF assms(2,1)]
  obtain positions intersects where
    g: "generate_needles_batch (min (N_NEEDLES_PER_FRAME p) (MAX_NEEDLES p - n_total s))
       (NEEDLE_LENGTH p) 0 10 0 10 rnd = Inr positions"
    and c: "check_intersections_batch positions (LINE_SPACING p) = Some (Inr intersects)"
    and r: "report p (collect positions intersects s) = Inr s'"
    by blast
  have "length positions = length intersects"
    using check_intersections_batch_length [OF c] by simp
  then have "n_total s' = n_total s + int (length positions)"
    using report_keeps_totals [OF r] collect_totals [of positions intersects s] by simp
  then show ?thesis using generate_needles_batch_length [OF g] by simp
qed

lemma update_within_budget:
  assumes "n_total s \<le> MAX_NEEDLES p" and "update p rnd frame s = Some (Inr s')"
  shows "n_total s' \<le> MAX_NEEDLES p"
proof (cases "n_total s < MAX_NEEDLES p")
  case True
  from update_adds [OF True assms(2)] show ?thesis by simp
next
  case False
  then have "MAX_NEEDLES p \<le> n_total s" by simp
  then have "s' = s" using assms(2) by (simp add: update_idle)
  then show ?thesis using assms(1) by simp
qed

subsection \<open>States of a run\<close>

lemma reachable_invariant:
  assumes "reachable p s"
  shows "0 \<le> n_intersections s \<and> n_intersections s \<le> n_total s \<and>
         (n_total s = 0 \<longrightarrow> ax2_title s = Convergence)"
  using assms
proof (induction rule: reachable.induct)
  case start
  show ?case by (simp add: initial_state_def)
next
  case (step s rnd frame s')
  have acc: "0 \<le> n_intersections s' \<and> n_intersections s' \<le> n_total s'"
    using update_accumulates_step [OF step.hyps(2)] step.IH by simp
  have "n_total s' = 0 \<longrightarrow> ax2_title s' = Convergence"
    using update_title_step [OF step.hyps(2)] step.IH by auto
  with acc show ?case by simp
qed

lemma reachable_within_budget:
  assumes "0 \<le> MAX_NEEDLES p" and "reachable p s"
  shows "n_total s \<le> MAX_NEEDLES p"
  using assms(2)
proof (induction rule: reachable.induct)
  case start
  show ?case using assms(1) by (simp add: initial_state_def)
next
  case (step s rnd frame s')
  show ?case by (rule update_within_budget [OF step.IH step.hyps(2)])
qed

text \<open>
  The configuration the file ships with: a run never counts more than \<open>2000\<close> needles.
\<close>

lemma module_params_run:
  assumes "reachable module_params s"
  shows "n_total s \<le> 2000"
  using reachable_within_budget [OF _ assms] by (simp add: module_params_def)

subsection \<open>The sample frames\<close>

lemma flat_batch:
  "generate_needles_batch 2 1 0 10 0 10 flat_draws = Inr [(0, 0, 1, 0), (0, 1 / 2, 1, 1 / 2)]"
  by (simp add: generate_needles_batch_def needle_def uniform_def flat_draws_def
        upt_conv_Cons numeral_2_eq_2 Let_def)

lemma small_update:
  "update small_params flat_draws 0 initial_state = Some (Inr after_first_frame)"
  by (simp add: update_def small_params_def initial_state_def flat_batch report_def
        check_intersection_def fl_def py_int_def sweep.simps Let_def after_first_frame_def
        round64_0 round64_half round64_1 round64_2)


subsection \<open>The claims about the accumulator\<close>

text \<open>
  Claim C3. After every successful call of \<open>update\<close> in a run, the number of
  intersections lies between \<open>0\<close> and the number of needles, and neither total has
  decreased. A call that finds the budget used up changes nothing; any other call adds
  to \<open>n_total\<close> the size of the batch it generated and to \<open>n_intersections\<close> the
  number of flags of that batch that are true.
\<close>

theorem update_accumulates:
  assumes "reachable p s" and "update p rnd frame s = Some (Inr s')"
  shows "0 \<le> n_intersections s' \<and> n_intersections s' \<le> n_total s' \<and>
         n_intersections s \<le> n_intersections s' \<and> n_total s \<le> n_total s' \<and>
         (if MAX_NEEDLES p \<le> n_total s then s' = s
          else \<exists>positions intersects.
                 generate_needles_batch (min (N_NEEDLES_PER_FRAME p) (MAX_NEEDLES p - n_total s))
                   (NEEDLE_LENGTH p) 0 10 0 10 rnd = Inr positions \<and>
                 check_intersections_batch positions (LINE_SPACING p) = Some (Inr intersects) \<and>
                 length intersects = length positions \<and>
                 n_total s' = n_total s + int (length positions) \<and>
                 n_intersections s' =
                   n_intersections s + int (length (filter (\<lambda>b. b) intersects)))"
proof -
  from reachable_invariant [OF assms(1)]
  have a: "0 \<le> n_intersections s" and b: "n_intersections s \<le> n_total s" by simp_all
  show ?thesis by (rule update_accumulates_step [OF assms(2) a b])
qed

text \<open>The first frame of the small configuration, from the initial state.\<close>

theorem update_accumulates_witness:
  "0 \<le> n_intersections after_first_frame \<and>
   n_intersections after_first_frame \<le> n_total after_first_frame \<and>
   n_intersections initial_state \<le> n_intersections after_first_frame \<and>
   n_total initial_state \<le> n_total after_first_frame \<and>
   (if MAX_NEEDLES small_params \<le> n_total initial_state then after_first_frame = initial_state
    else \<exists>positions intersects.
           generate_needles_batch
             (min (N_NEEDLES_PER_FRAME small_params) (MAX_NEEDLES small_params - n_total initial_state))
             (NEEDLE_LENGTH small_params) 0 10 0 10 flat_draws = Inr positions \<and>
           check_intersections_batch positions (LINE_SPACING small_params) = Some (Inr intersects) \<and>
           length intersects = length positions \<and>
           n_total after_first_frame = n_total initial_state + int (length positions) \<and>
           n_intersections after_first_frame =
             n_intersections initial_state + int (length (filter (\<lambda>b. b) intersects)))"
proof -
  have r: "reachable small_params initial_state" by (rule reachable.start)
  show ?thesis by (rule update_accumulates [OF r small_update])
qed

text \<open>
  Claim C9. Once \<open>n_total\<close> has reached \<open>MAX_NEEDLES\<close>, a call of \<open>update\<close> returns
  the state it was given, every field unchanged. Below the budget a successful call
  adds exactly \<open>min N_NEEDLES_PER_FRAME (MAX_NEEDLES - n_total)\<close> needles, so a count
  that does not exceed \<open>MAX_NEEDLES\<close> does not exceed it afterwards, and no state of a
  run with a non-negative budget counts more than \<open>MAX_NEEDLES\<close> needles.
\<close>

theorem update_stops_at_max:
  "(MAX_NEEDLES p \<le> n_total s \<longrightarrow> update p rnd frame s = Some (Inr s)) \<and>
   (n_total s < MAX_NEEDLES p \<and> update p rnd frame s = Some (Inr s') \<longrightarrow>
      n_total s' = n_total s + min (N_NEEDLES_PER_FRAME p) (MAX_NEEDLES p - n_total s)) \<and>
   (n_total s \<le> MAX_NEEDLES p \<and> update p rnd frame s = Some (Inr s') \<longrightarrow>
      n_total s' \<le> MAX_NEEDLES p) \<and>
   (0 \<le> MAX_NEEDLES p \<and> reachable p s \<longrightarrow> n_total s \<le> MAX_NEEDLES p)"
  using update_idle update_adds update_within_budget reachable_within_budget by blast

text \<open>
  A call at the budget (two needles, budget two), and the first frame of the small
  configuration with the state it reaches.
\<close>

theorem update_stops_at_max_witness:
  "update (small_params\<lparr>MAX_NEEDLES := 2\<rparr>) flat_draws 1 after_first_frame =
     Some (Inr after_first_frame) \<and>
   n_total after_first_frame =
     n_total initial_state +
     min (N_NEEDLES_PER_FRAME small_params) (MAX_NEEDLES small_params - n_total initial_state) \<and>
   n_total after_first_frame \<le> MAX_NEEDLES small_params"
proof -
  have full: "MAX_NEEDLES (small_params\<lparr>MAX_NEEDLES := 2\<rparr>) \<le> n_total after_first_frame"
    by (simp add: after_first_frame_def)
  have lt: "n_total initial_state < MAX_NEEDLES small_params"
    by (simp add: initial_state_def small_params_def)
  have budget: "0 \<le> MAX_NEEDLES small_params"
    by (simp add: small_params_def)
  have run: "reachable small_params after_first_frame"
    by (rule reachable.step [OF reachable.start small_update])
  note at_max = update_stops_at_max
    [of "small_params\<lparr>MAX_NEEDLES := 2\<rparr>" after_first_frame flat_draws 1]
  note below = update_stops_at_max [of small_params initial_state flat_draws 0 after_first_frame]
  note in_run = update_stops_at_max [of small_params after_first_frame]
  show ?thesis
  proof (intro conjI)
    show "update (small_params\<lparr>MAX_NEEDLES := 2\<rparr>) flat_draws 1 after_first_frame =
     Some (Inr after_first_frame)"
      by (rule at_max [THEN conjunct1, THEN mp, OF full])
    show "n_total after_first_frame =
     n_total initial_state +
     min (N_NEEDLES_PER_FRAME small_params) (MAX_NEEDLES small_params - n_total initial_state)"
      by (rule below [THEN conjunct2, THEN conjunct1, THEN mp, OF conjI [OF lt small_update]])
    show "n_total after_first_frame \<le> MAX_NEEDLES small_params"
      by (rule in_run [THEN conjunct2, THEN conjunct2, THEN conjunct2, THEN mp,
            OF conjI [OF budget run]])
  qed
qed



subsection \<open>Parameters are not validated\<close>




end
